theory Spec2Isabelle
  imports Complex_Main "HOL-Library.Sublist"
begin

section \<open>The priority-issue detector of \<open>analysis.py\<close>\<close>

text \<open>
  A shallow embedding of \<open>detect_priority_issues\<close> (\<open>src/analysis.py\<close>, lines 39 to 87).
  A data frame is the list of its rows in file order. A numeric field of a row is a real
  number that stands for the float64 value of the column: itself when it is a float64
  value, the nearest one when it is a decimal such as \<open>9 / 10\<close>. The floating-point arithmetic
  of the detector itself is the subtraction of two priorities (lines 59 and 63), which
  rounds to the nearest float64 value, and the literals \<open>0.05\<close> and \<open>0.75\<close>, which stand for
  the float64 values nearest to them; both are modelled by the rounding function
  \<open>float64\<close> below. Multiplying a size by \<open>2\<close> is exact in binary floating point, and
  \<open>2 * (24 * 3600)\<close> is integer arithmetic. Infinities and NaN inside the data are not
  modelled. The only NaN kept is the one pandas returns for a statistic of an empty
  column; it is the value \<open>None\<close>.
\<close>

subsection \<open>Binary floating point\<close>

text \<open>
  \<open>float64 x\<close> is the IEEE 754 binary64 value nearest to \<open>x\<close>, ties going to the even
  significand: 53 significant bits, with the binary exponent \<open>\<lfloor>log 2 \<bar>x\<bar>\<rfloor>\<close> of \<open>x\<close> and not
  less than \<open>- 1022\<close>, the exponent of the smallest normal number, so that below it the
  spacing is that of the subnormal numbers. \<open>pow2 e\<close> is \<open>2\<close> to the integer power \<open>e\<close>.
  Overflow to infinity is not modelled.
\<close>

definition pow2 :: "int \<Rightarrow> real" where
  "pow2 e = (if 0 \<le> e then 2 ^ nat e else 1 / 2 ^ nat (- e))"

definition round_half_even :: "real \<Rightarrow> int" where
  "round_half_even r =
     (let f = \<lfloor>r\<rfloor>; d = r - of_int f
      in if d < 1 / 2 then f else if 1 / 2 < d then f + 1 else if even f then f else f + 1)"

definition float64 :: "real \<Rightarrow> real" where
  "float64 x =
     (if x = 0 then 0
      else let e = max \<lfloor>log 2 \<bar>x\<bar>\<rfloor> (- 1022); ulp = pow2 (e - 52)
           in of_int (round_half_even (x / ulp)) * ulp)"

text \<open>
  The float64 subtraction \<open>x - y\<close> of two column values: the operands are float64
  values (a decimal such as \<open>9 / 10\<close> is read as the float64 value nearest to it, as
  Python reads \<open>0.9\<close>), and the exact difference is rounded.
\<close>

definition float_sub :: "real \<Rightarrow> real \<Rightarrow> real" where
  "float_sub x y = float64 (float64 x - float64 y)"

subsection \<open>Constants (lines 5 to 25)\<close>

definition PRIORITY_DIFFERENCE_THRESHOLD :: real where
  "PRIORITY_DIFFERENCE_THRESHOLD = float64 (5 / 100)"

definition TABLE_SIZE_RATIO_THRESHOLD :: real where
  "TABLE_SIZE_RATIO_THRESHOLD = 2"

definition STARVATION_THRESHOLD_DAYS :: real where
  "STARVATION_THRESHOLD_DAYS = 2"

definition CHANGE_RATIO_QUANTILE :: real where
  "CHANGE_RATIO_QUANTILE = float64 (75 / 100)"

definition LARGE_BLOCKING_SMALL_THRESHOLD :: nat where
  "LARGE_BLOCKING_SMALL_THRESHOLD = 10"

definition SMALL_BLOCKING_LARGE_THRESHOLD :: nat where
  "SMALL_BLOCKING_LARGE_THRESHOLD = 10"

definition STARVED_TABLES_THRESHOLD :: nat where
  "STARVED_TABLES_THRESHOLD = 5"

definition HIGH_CHANGE_LOW_PRIORITY_THRESHOLD :: nat where
  "HIGH_CHANGE_LOW_PRIORITY_THRESHOLD = 5"

definition SECONDS_PER_DAY :: real where
  "SECONDS_PER_DAY = 24 * 3600"

subsection \<open>Rows and data frames\<close>

text \<open>One row of the CSV file, with the column names the detector reads.\<close>

record 'id table_row =
  ID :: 'id
  TableSize :: real
  CalculatedPriority :: real
  TimeSinceLastAnalyze :: real
  ChangeRatio :: real

type_synonym 'id dataframe = "'id table_row list"

subsection \<open>The pandas statistics\<close>

text \<open>
  \<open>Series.median\<close> and \<open>Series.quantile\<close> belong to pandas, not to the repository. They are
  written here as the pandas documentation defines them: the median of a sorted column
  is its middle element, or the mean of the two middle elements; the quantile \<open>q\<close>
  interpolates linearly between the two elements around position \<open>(n - 1) * q\<close>; both are
  NaN (\<open>None\<close>) for an empty column and raise nothing. The mean and the interpolation are
  written in exact arithmetic; on the example data below they are exact in float64 as
  well.
\<close>

definition median :: "real list \<Rightarrow> real option" where
  "median xs =
     (let s = sort xs; n = length s
      in if n = 0 then None
         else if odd n then Some (s ! (n div 2))
         else Some ((s ! (n div 2 - 1) + s ! (n div 2)) / 2))"

definition quantile :: "real \<Rightarrow> real list \<Rightarrow> real option" where
  "quantile q xs =
     (let s = sort xs; n = length s
      in if n = 0 then None
         else
           let pos = real (n - 1) * q;
               lo = nat \<lfloor>pos\<rfloor>;
               hi = nat \<lceil>pos\<rceil>
           in Some (s ! lo + (s ! hi - s ! lo) * (pos - real lo)))"

text \<open>A comparison with NaN is false in Python, whichever way it is written.\<close>

definition lt_stat :: "real \<Rightarrow> real option \<Rightarrow> bool" where
  "lt_stat x m = (case m of None \<Rightarrow> False | Some v \<Rightarrow> x < v)"

definition gt_stat :: "real \<Rightarrow> real option \<Rightarrow> bool" where
  "gt_stat x m = (case m of None \<Rightarrow> False | Some v \<Rightarrow> x > v)"

subsection \<open>The scan (lines 49 to 72)\<close>

text \<open>The four evidence lists the loop appends to.\<close>

record 'id scan_state =
  large_blocking_small :: "('id \<times> 'id \<times> real \<times> real) list"
  small_blocking_large :: "('id \<times> 'id \<times> real \<times> real) list"
  starved_tables :: "('id \<times> real \<times> real) list"
  high_change_low_priority :: "('id \<times> real \<times> real) list"

definition init_state :: "'id scan_state" where
  "init_state =
     \<lparr>large_blocking_small = [], small_blocking_large = [],
      starved_tables = [], high_change_low_priority = []\<rparr>"

text \<open>
  The conditions of lines 59 and 63, on the pair \<open>(current, next_table)\<close>; the priority
  difference is the float64 subtraction, compared with the float64 constant.
\<close>

definition large_blocks_small :: "'id table_row \<Rightarrow> 'id table_row \<Rightarrow> bool" where
  "large_blocks_small current next_table \<longleftrightarrow>
     TableSize current > TableSize next_table * TABLE_SIZE_RATIO_THRESHOLD \<and>
     float_sub (CalculatedPriority current) (CalculatedPriority next_table) >
       PRIORITY_DIFFERENCE_THRESHOLD"

definition small_blocks_large :: "'id table_row \<Rightarrow> 'id table_row \<Rightarrow> bool" where
  "small_blocks_large current next_table \<longleftrightarrow>
     TableSize current * TABLE_SIZE_RATIO_THRESHOLD < TableSize next_table \<and>
     float_sub (CalculatedPriority current) (CalculatedPriority next_table) >
       PRIORITY_DIFFERENCE_THRESHOLD"

text \<open>
  The loop body at position \<open>i\<close> (lines 56 to 72). The two statistics are arguments
  \<open>med\<close> and \<open>qnt\<close> called on the whole column in every iteration, as the source calls
  \<open>df['CalculatedPriority'].median()\<close> and \<open>df['ChangeRatio'].quantile(...)\<close> inside the
  loop. The loop only runs with \<open>i + 1 < len(df)\<close>, so \<open>df.iloc[i]\<close> and \<open>df.iloc[i+1]\<close>
  never raise.
\<close>

definition loop_body ::
  "(real list \<Rightarrow> real option) \<Rightarrow> (real \<Rightarrow> real list \<Rightarrow> real option) \<Rightarrow>
   'id dataframe \<Rightarrow> nat \<Rightarrow> 'id scan_state \<Rightarrow> 'id scan_state" where
  "loop_body med qnt df i st =
     (let current = df ! i;
          next_table = df ! (i + 1);
          st = (if large_blocks_small current next_table
                then st\<lparr>large_blocking_small := large_blocking_small st @
                       [(ID current, ID next_table, TableSize current, TableSize next_table)]\<rparr>
                else st);
          st = (if small_blocks_large current next_table
                then st\<lparr>small_blocking_large := small_blocking_large st @
                       [(ID current, ID next_table, TableSize current, TableSize next_table)]\<rparr>
                else st);
          st = (if TimeSinceLastAnalyze current > STARVATION_THRESHOLD_DAYS * SECONDS_PER_DAY \<and>
                   lt_stat (CalculatedPriority current) (med (map CalculatedPriority df))
                then st\<lparr>starved_tables := starved_tables st @
                       [(ID current, TimeSinceLastAnalyze current, CalculatedPriority current)]\<rparr>
                else st);
          st = (if gt_stat (ChangeRatio current) (qnt CHANGE_RATIO_QUANTILE (map ChangeRatio df)) \<and>
                   lt_stat (CalculatedPriority current) (med (map CalculatedPriority df))
                then st\<lparr>high_change_low_priority := high_change_low_priority st @
                       [(ID current, ChangeRatio current, CalculatedPriority current)]\<rparr>
                else st)
      in st)"

text \<open>Python's \<open>range(n)\<close> for an integer \<open>n\<close>: empty when \<open>n \<le> 0\<close>.\<close>

definition py_range :: "int \<Rightarrow> nat list" where
  "py_range n = [0..<nat n]"

text \<open>\<open>for i in range(len(df) - 1)\<close>: the body folded over the positions, from empty lists.\<close>

definition scan ::
  "(real list \<Rightarrow> real option) \<Rightarrow> (real \<Rightarrow> real list \<Rightarrow> real option) \<Rightarrow>
   'id dataframe \<Rightarrow> 'id scan_state" where
  "scan med qnt df = fold (loop_body med qnt df) (py_range (int (length df) - 1)) init_state"

subsection \<open>The summary (lines 74 to 87)\<close>

text \<open>\<open>str(n)\<close> of a length: its decimal digits.\<close>

definition digit_char :: "nat \<Rightarrow> char" where
  "digit_char d = char_of (48 + d)"

function str_nat :: "nat \<Rightarrow> string" where
  "str_nat n = (if n < 10 then [digit_char n] else str_nat (n div 10) @ [digit_char (n mod 10)])"
  by pat_completeness auto
termination
  by (relation "measure id") auto

declare str_nat.simps [simp del]

text \<open>The four f-strings of lines 76, 79, 82 and 85.\<close>

definition msg_large_blocking_small :: "nat \<Rightarrow> string" where
  "msg_large_blocking_small n =
     ''Found '' @ str_nat n @ '' instances where larger tables may be blocking smaller tables''"

definition msg_small_blocking_large :: "nat \<Rightarrow> string" where
  "msg_small_blocking_large n =
     ''Found '' @ str_nat n @ '' instances where smaller tables may be blocking larger tables''"

definition msg_starved_tables :: "nat \<Rightarrow> string" where
  "msg_starved_tables n =
     ''Found '' @ str_nat n @ '' instances of potential table starvation''"

definition msg_high_change_low_priority :: "nat \<Rightarrow> string" where
  "msg_high_change_low_priority n =
     ''Found '' @ str_nat n @ '' instances of tables with high change ratio but low priority''"

definition summarize :: "'id scan_state \<Rightarrow> string list" where
  "summarize st =
     (let issues = [];
          issues = (if length (large_blocking_small st) > LARGE_BLOCKING_SMALL_THRESHOLD
                    then issues @ [msg_large_blocking_small (length (large_blocking_small st))]
                    else issues);
          issues = (if length (small_blocking_large st) > SMALL_BLOCKING_LARGE_THRESHOLD
                    then issues @ [msg_small_blocking_large (length (small_blocking_large st))]
                    else issues);
          issues = (if length (starved_tables st) > STARVED_TABLES_THRESHOLD
                    then issues @ [msg_starved_tables (length (starved_tables st))]
                    else issues);
          issues = (if length (high_change_low_priority st) > HIGH_CHANGE_LOW_PRIORITY_THRESHOLD
                    then issues @ [msg_high_change_low_priority (length (high_change_low_priority st))]
                    else issues)
      in issues)"

subsection \<open>The detector\<close>

type_synonym 'id detection_result =
  "string list \<times> ('id \<times> 'id \<times> real \<times> real) list \<times> ('id \<times> 'id \<times> real \<times> real) list \<times>
   ('id \<times> real \<times> real) list \<times> ('id \<times> real \<times> real) list"

text \<open>The returned tuple of line 87, from a final loop state.\<close>

definition result_of :: "'id scan_state \<Rightarrow> 'id detection_result" where
  "result_of st =
     (summarize st, large_blocking_small st, small_blocking_large st,
      starved_tables st, high_change_low_priority st)"

definition detect_priority_issues_with ::
  "(real list \<Rightarrow> real option) \<Rightarrow> (real \<Rightarrow> real list \<Rightarrow> real option) \<Rightarrow>
   'id dataframe \<Rightarrow> 'id detection_result" where
  "detect_priority_issues_with med qnt df = result_of (scan med qnt df)"

definition detect_priority_issues :: "'id dataframe \<Rightarrow> 'id detection_result" where
  "detect_priority_issues df = detect_priority_issues_with median quantile df"

text \<open>The components of the returned tuple, in the order of line 87.\<close>

definition res_issues :: "'id detection_result \<Rightarrow> string list" where
  "res_issues r = fst r"

definition res_large_blocking_small :: "'id detection_result \<Rightarrow> ('id \<times> 'id \<times> real \<times> real) list" where
  "res_large_blocking_small r = fst (snd r)"

definition res_small_blocking_large :: "'id detection_result \<Rightarrow> ('id \<times> 'id \<times> real \<times> real) list" where
  "res_small_blocking_large r = fst (snd (snd r))"

definition res_starved_tables :: "'id detection_result \<Rightarrow> ('id \<times> real \<times> real) list" where
  "res_starved_tables r = fst (snd (snd (snd r)))"

definition res_high_change_low_priority :: "'id detection_result \<Rightarrow> ('id \<times> real \<times> real) list" where
  "res_high_change_low_priority r = snd (snd (snd (snd r)))"

subsection \<open>The two-phase variant of the specification\<close>

text \<open>
  The specification asks for a pipeline in two phases: \<open>priority_median\<close> and
  \<open>change_ratio_high\<close> are computed once, before the scan, and the scan reuses them. This
  variant follows the specification's words, to be compared with the detector above.
\<close>

definition scan_body_two_phase ::
  "real option \<Rightarrow> real option \<Rightarrow> 'id dataframe \<Rightarrow> nat \<Rightarrow> 'id scan_state \<Rightarrow> 'id scan_state" where
  "scan_body_two_phase priority_median change_ratio_high df i st =
     (let current = df ! i;
          next_table = df ! (i + 1);
          st = (if large_blocks_small current next_table
                then st\<lparr>large_blocking_small := large_blocking_small st @
                       [(ID current, ID next_table, TableSize current, TableSize next_table)]\<rparr>
                else st);
          st = (if small_blocks_large current next_table
                then st\<lparr>small_blocking_large := small_blocking_large st @
                       [(ID current, ID next_table, TableSize current, TableSize next_table)]\<rparr>
                else st);
          st = (if TimeSinceLastAnalyze current > STARVATION_THRESHOLD_DAYS * SECONDS_PER_DAY \<and>
                   lt_stat (CalculatedPriority current) priority_median
                then st\<lparr>starved_tables := starved_tables st @
                       [(ID current, TimeSinceLastAnalyze current, CalculatedPriority current)]\<rparr>
                else st);
          st = (if gt_stat (ChangeRatio current) change_ratio_high \<and>
                   lt_stat (CalculatedPriority current) priority_median
                then st\<lparr>high_change_low_priority := high_change_low_priority st @
                       [(ID current, ChangeRatio current, CalculatedPriority current)]\<rparr>
                else st)
      in st)"

definition detect_priority_issues_two_phase :: "'id dataframe \<Rightarrow> 'id detection_result" where
  "detect_priority_issues_two_phase df =
     (let priority_median = median (map CalculatedPriority df);
          change_ratio_high = quantile CHANGE_RATIO_QUANTILE (map ChangeRatio df)
      in result_of
           (fold (scan_body_two_phase priority_median change_ratio_high df)
              (py_range (int (length df) - 1)) init_state))"

subsection \<open>Example datasets\<close>

text \<open>
  Concrete data frames used to run the detector: the three records of the specification's
  example; two pairs whose priority difference is close to the threshold (\<open>0.9\<close> and
  \<open>0.85\<close>, whose float64 difference is above the float64 \<open>0.05\<close>, and \<open>0.05\<close> and \<open>0.0\<close>,
  whose difference is the threshold itself); a frame whose last record is starved and
  changes fast; a pair on the size boundary; frames that lose evidence when records are
  appended; frames whose statistics stay the same when a record is appended; and a family
  of \<open>n\<close> records in which every adjacent pair is a large table blocking a small one.
\<close>

definition spec_example :: "nat dataframe" where
  "spec_example =
     [\<lparr>ID = 1, TableSize = 1000, CalculatedPriority = 9 / 10, TimeSinceLastAnalyze = 0, ChangeRatio = 1 / 10\<rparr>,
      \<lparr>ID = 2, TableSize = 10, CalculatedPriority = 1 / 2, TimeSinceLastAnalyze = 0, ChangeRatio = 1 / 10\<rparr>,
      \<lparr>ID = 3, TableSize = 5, CalculatedPriority = 1 / 2, TimeSinceLastAnalyze = 200000, ChangeRatio = 1 / 10\<rparr>]"

definition gap_above_threshold :: "nat dataframe" where
  "gap_above_threshold =
     [\<lparr>ID = 1, TableSize = 1000, CalculatedPriority = 9 / 10, TimeSinceLastAnalyze = 0, ChangeRatio = 0\<rparr>,
      \<lparr>ID = 2, TableSize = 10, CalculatedPriority = 85 / 100, TimeSinceLastAnalyze = 0, ChangeRatio = 0\<rparr>]"

definition gap_at_threshold :: "nat dataframe" where
  "gap_at_threshold =
     [\<lparr>ID = 1, TableSize = 1000, CalculatedPriority = 5 / 100, TimeSinceLastAnalyze = 0, ChangeRatio = 0\<rparr>,
      \<lparr>ID = 2, TableSize = 10, CalculatedPriority = 0, TimeSinceLastAnalyze = 0, ChangeRatio = 0\<rparr>]"

definition last_row_example :: "nat dataframe" where
  "last_row_example =
     [\<lparr>ID = 1, TableSize = 10, CalculatedPriority = 3 / 4, TimeSinceLastAnalyze = 0, ChangeRatio = 1 / 4\<rparr>,
      \<lparr>ID = 2, TableSize = 10, CalculatedPriority = 1 / 4, TimeSinceLastAnalyze = 200000, ChangeRatio = 3 / 4\<rparr>]"

definition boundary_pair :: "nat dataframe" where
  "boundary_pair =
     [\<lparr>ID = 1, TableSize = 20, CalculatedPriority = 3 / 4, TimeSinceLastAnalyze = 0, ChangeRatio = 0\<rparr>,
      \<lparr>ID = 2, TableSize = 10, CalculatedPriority = 1 / 4, TimeSinceLastAnalyze = 0, ChangeRatio = 0\<rparr>]"





definition steep_rows :: "nat \<Rightarrow> nat dataframe" where
  "steep_rows n =
     map (\<lambda>k. \<lparr>ID = k, TableSize = 3 ^ (n - k), CalculatedPriority = real (n - k),
                TimeSinceLastAnalyze = 0, ChangeRatio = 0\<rparr>) [0..<n]"

section \<open>Properties of the detector\<close>

subsection \<open>Rounding to float64\<close>

text \<open>
  The rounding is evaluated from the binary exponent of its argument. A float64 value,
  that is \<open>n * 2 ^ k\<close> with \<open>\<bar>n\<bar> < 2 ^ 53\<close> and \<open>- 1074 \<le> k\<close>, is left as it is by the
  rounding (\<open>float64_exact\<close>), so on fields that hold float64 values \<open>float_sub\<close> is the
  rounded exact difference; in particular integers below \<open>2 ^ 53\<close> are float64 values.
  Then the float64 values of the decimals used below.
\<close>

lemma pow2_powr: "pow2 e = 2 powr of_int e"
proof (cases "0 \<le> e")
  case True
  then have "(2::real) powr of_int e = 2 powr real (nat e)" by simp
  also have "\<dots> = 2 ^ nat e" by (rule powr_realpow) simp
  finally show ?thesis using True by (simp add: pow2_def)
next
  case False
  then have "(2::real) powr of_int e = 2 powr (- real (nat (- e)))" by simp
  also have "\<dots> = 1 / 2 powr real (nat (- e))" by (simp add: powr_minus_divide)
  also have "\<dots> = 1 / 2 ^ nat (- e)" by (simp add: powr_realpow)
  finally show ?thesis using False by (simp add: pow2_def)
qed

lemma floor_log2_eq:
  assumes "x \<noteq> 0" and "pow2 e \<le> \<bar>x\<bar>" and "\<bar>x\<bar> < pow2 (e + 1)"
  shows "\<lfloor>log 2 \<bar>x\<bar>\<rfloor> = e"
proof (rule floor_unique)
  from assms(1) have pos: "0 < \<bar>x\<bar>" by simp
  from assms(2) have "2 powr of_int e \<le> \<bar>x\<bar>" by (simp add: pow2_powr)
  with pos show "of_int e \<le> log 2 \<bar>x\<bar>" by (simp add: le_log_iff)
  from assms(3) have "\<bar>x\<bar> < 2 powr (of_int e + 1)" by (simp add: pow2_powr)
  with pos show "log 2 \<bar>x\<bar> < of_int e + 1" by (simp add: log_less_iff)
qed

lemma float64_eval:
  assumes "x \<noteq> 0" and "- 1022 \<le> e" and "pow2 e \<le> \<bar>x\<bar>" and "\<bar>x\<bar> < pow2 (e + 1)"
  shows "float64 x = of_int (round_half_even (x / pow2 (e - 52))) * pow2 (e - 52)"
  using assms(1,2) floor_log2_eq [OF assms(1,3,4)] by (simp add: float64_def Let_def max_def)

lemma round_half_even_of_int: "round_half_even (of_int z) = z"
  by (simp add: round_half_even_def)

lemma pow2_pos: "0 < pow2 e"
  by (simp add: pow2_powr)

lemma pow2_add: "pow2 (a + b) = pow2 a * pow2 b"
  by (simp add: pow2_powr powr_add)

lemma pow2_nat: "pow2 (int d) = 2 ^ d"
  by (simp add: pow2_def)

lemma float64_exact:
  assumes n: "\<bar>n\<bar> < 2 ^ 53" and k: "- 1074 \<le> k"
  shows "float64 (of_int n * pow2 k) = of_int n * pow2 k"
proof (cases "n = 0")
  case True
  then show ?thesis by (simp add: float64_def)
next
  case False
  define x :: real where "x = of_int n * pow2 k"
  define e where "e = \<lfloor>log 2 \<bar>x\<bar>\<rfloor>"
  define u where "u = max e (- 1022) - 52"
  have an: "\<bar>real_of_int n\<bar> = of_int \<bar>n\<bar>" by simp
  from False have "1 \<le> \<bar>n\<bar>" by linarith
  then have n1: "1 \<le> \<bar>real_of_int n\<bar>" unfolding an by linarith
  from n have "real_of_int \<bar>n\<bar> < of_int (2 ^ 53)" by (simp only: of_int_less_iff)
  then have n2: "\<bar>real_of_int n\<bar> < 2 ^ 53" unfolding an by simp
  have ax: "\<bar>x\<bar> = \<bar>real_of_int n\<bar> * pow2 k"
    using pow2_pos [of k] by (simp add: x_def abs_mult)
  from n1 pow2_pos [of k] have xpos: "0 < \<bar>x\<bar>" unfolding ax by simp
  then have x0: "x \<noteq> 0" by simp
  have "\<bar>x\<bar> < 2 ^ 53 * pow2 k"
    unfolding ax using n2 pow2_pos [of k] by simp
  also have "\<dots> = pow2 (53 + k)"
    using pow2_add [of 53 k] by (simp add: pow2_def)
  finally have "\<bar>x\<bar> < 2 powr of_int (53 + k)" by (simp add: pow2_powr)
  with xpos have "log 2 \<bar>x\<bar> < of_int (53 + k)" by (simp add: log_less_iff)
  then have "e < 53 + k" unfolding e_def by linarith
  with k have uk: "u \<le> k" by (simp add: u_def)
  define d where "d = nat (k - u)"
  from uk have "k = u + int d" by (simp add: d_def)
  then have pk: "pow2 k = pow2 u * 2 ^ d"
    by (simp only: pow2_add pow2_nat)
  have "x / pow2 u = of_int (n * 2 ^ d)"
    using pow2_pos [of u] by (simp add: x_def pk)
  then have "round_half_even (x / pow2 u) = n * 2 ^ d"
    by (simp only: round_half_even_of_int)
  then have "of_int (round_half_even (x / pow2 u)) * pow2 u = x"
    by (simp add: x_def pk)
  with x0 show ?thesis
    by (simp add: float64_def Let_def e_def [symmetric] u_def [symmetric] x_def [symmetric])
qed

lemma float64_of_int: "\<bar>m\<bar> < 2 ^ 53 \<Longrightarrow> float64 (of_int m) = of_int m"
  using float64_exact [of m 0] by (simp add: pow2_def)

lemma float64_of_nat: "n < 2 ^ 53 \<Longrightarrow> float64 (real n) = real n"
  using float64_of_int [of "int n"] by simp

lemma float64_0: "float64 0 = 0"
  by (simp add: float64_def)

lemma float64_1: "float64 1 = 1"
  using float64_of_nat [of 1] by simp

lemma float64_0_05: "float64 (1 / 20) = 3602879701896397 / 72057594037927936"
  by (subst float64_eval [where e = "- 5"]) (simp_all add: pow2_def round_half_even_def)

lemma float64_0_75: "float64 (3 / 4) = 3 / 4"
  by (subst float64_eval [where e = "- 1"]) (simp_all add: pow2_def round_half_even_def)

lemma float64_0_9: "float64 (9 / 10) = 8106479329266893 / 9007199254740992"
  by (subst float64_eval [where e = "- 1"]) (simp_all add: pow2_def round_half_even_def)

lemma float64_0_85: "float64 (17 / 20) = 7656119366529843 / 9007199254740992"
  by (subst float64_eval [where e = "- 1"]) (simp_all add: pow2_def round_half_even_def)

lemma float64_0_5: "float64 (1 / 2) = 1 / 2"
  by (subst float64_eval [where e = "- 1"]) (simp_all add: pow2_def round_half_even_def)

lemma PRIORITY_DIFFERENCE_THRESHOLD_value:
  "PRIORITY_DIFFERENCE_THRESHOLD = 3602879701896397 / 72057594037927936"
  by (simp add: PRIORITY_DIFFERENCE_THRESHOLD_def float64_0_05)

lemma CHANGE_RATIO_QUANTILE_value: "CHANGE_RATIO_QUANTILE = 3 / 4"
  by (simp add: CHANGE_RATIO_QUANTILE_def float64_0_75)

lemma float_sub_0_9_0_5: "float_sub (9 / 10) (1 / 2) = 3602879701896397 / 9007199254740992"
  unfolding float_sub_def float64_0_9 float64_0_5
  by (subst float64_eval [where e = "- 2"]) (simp_all add: pow2_def round_half_even_def)

lemma float_sub_0_9_0_85: "float_sub (9 / 10) (17 / 20) = 225179981368525 / 4503599627370496"
  unfolding float_sub_def float64_0_9 float64_0_85
  by (subst float64_eval [where e = "- 5"]) (simp_all add: pow2_def round_half_even_def)

lemma float_sub_0_05_0: "float_sub (1 / 20) 0 = 3602879701896397 / 72057594037927936"
  unfolding float_sub_def float64_0_05 float64_0
  by (subst float64_eval [where e = "- 5"]) (simp_all add: pow2_def round_half_even_def)

lemma float_sub_of_nat:
  assumes "m < 2 ^ 53" and "n \<le> m"
  shows "float_sub (real m) (real n) = real (m - n)"
proof -
  from assms have "n < 2 ^ 53" and "m - n < 2 ^ 53" by linarith+
  with assms show ?thesis
    by (simp add: float_sub_def float64_of_nat of_nat_diff [symmetric] del: of_nat_diff)
qed

lemma float_sub_float64_values:
  assumes "\<bar>n\<bar> < 2 ^ 53" and "- 1074 \<le> k" and "\<bar>m\<bar> < 2 ^ 53" and "- 1074 \<le> l"
  shows "float_sub (of_int n * pow2 k) (of_int m * pow2 l) =
     float64 (of_int n * pow2 k - of_int m * pow2 l)"
  using assms by (simp add: float_sub_def float64_exact)

subsection \<open>What one iteration and the whole scan append\<close>

lemmas thresholds = PRIORITY_DIFFERENCE_THRESHOLD_value TABLE_SIZE_RATIO_THRESHOLD_def
  STARVATION_THRESHOLD_DAYS_def CHANGE_RATIO_QUANTILE_value SECONDS_PER_DAY_def

lemma upt_numeral_simps:
  "[0..<Suc 0] = [0]" "[0..<2] = [0, 1]" "[0..<4] = [0, 1, 2, 3]" "[0..<6] = [0, 1, 2, 3, 4, 5]"
  by (simp_all add: upt_rec)

lemma loop_body_large:
  "large_blocking_small (loop_body med qnt df i st) =
     large_blocking_small st @
       (if large_blocks_small (df ! i) (df ! (i + 1))
        then [(ID (df ! i), ID (df ! (i + 1)), TableSize (df ! i), TableSize (df ! (i + 1)))]
        else [])"
  by (simp add: loop_body_def Let_def)

lemma loop_body_small:
  "small_blocking_large (loop_body med qnt df i st) =
     small_blocking_large st @
       (if small_blocks_large (df ! i) (df ! (i + 1))
        then [(ID (df ! i), ID (df ! (i + 1)), TableSize (df ! i), TableSize (df ! (i + 1)))]
        else [])"
  by (simp add: loop_body_def Let_def)

lemma loop_body_starved:
  "starved_tables (loop_body med qnt df i st) =
     starved_tables st @
       (if TimeSinceLastAnalyze (df ! i) > STARVATION_THRESHOLD_DAYS * SECONDS_PER_DAY \<and>
           lt_stat (CalculatedPriority (df ! i)) (med (map CalculatedPriority df))
        then [(ID (df ! i), TimeSinceLastAnalyze (df ! i), CalculatedPriority (df ! i))]
        else [])"
  by (simp add: loop_body_def Let_def)

lemma loop_body_high_change:
  "high_change_low_priority (loop_body med qnt df i st) =
     high_change_low_priority st @
       (if gt_stat (ChangeRatio (df ! i)) (qnt CHANGE_RATIO_QUANTILE (map ChangeRatio df)) \<and>
           lt_stat (CalculatedPriority (df ! i)) (med (map CalculatedPriority df))
        then [(ID (df ! i), ChangeRatio (df ! i), CalculatedPriority (df ! i))]
        else [])"
  by (simp add: loop_body_def Let_def)

lemma fold_append_field:
  assumes "\<And>i st. sel (body i st) = sel st @ (if c i then [e i] else [])"
  shows "sel (fold body is st) = sel st @ map e (filter c is)"
  using assms by (induction "is" arbitrary: st) auto

lemma py_range_len: "py_range (int n - 1) = [0..<n - 1]"
  by (cases n) (simp_all add: py_range_def)

lemma scan_large:
  "large_blocking_small (scan med qnt df) =
     map (\<lambda>i. (ID (df ! i), ID (df ! (i + 1)), TableSize (df ! i), TableSize (df ! (i + 1))))
       (filter (\<lambda>i. large_blocks_small (df ! i) (df ! (i + 1))) [0..<length df - 1])"
  unfolding scan_def py_range_len
  by (subst fold_append_field [where sel = large_blocking_small, OF loop_body_large])
     (simp add: init_state_def)

lemma scan_small:
  "small_blocking_large (scan med qnt df) =
     map (\<lambda>i. (ID (df ! i), ID (df ! (i + 1)), TableSize (df ! i), TableSize (df ! (i + 1))))
       (filter (\<lambda>i. small_blocks_large (df ! i) (df ! (i + 1))) [0..<length df - 1])"
  unfolding scan_def py_range_len
  by (subst fold_append_field [where sel = small_blocking_large, OF loop_body_small])
     (simp add: init_state_def)

lemma scan_starved:
  "starved_tables (scan med qnt df) =
     map (\<lambda>i. (ID (df ! i), TimeSinceLastAnalyze (df ! i), CalculatedPriority (df ! i)))
       (filter (\<lambda>i. TimeSinceLastAnalyze (df ! i) > STARVATION_THRESHOLD_DAYS * SECONDS_PER_DAY \<and>
                     lt_stat (CalculatedPriority (df ! i)) (med (map CalculatedPriority df)))
          [0..<length df - 1])"
  unfolding scan_def py_range_len
  by (subst fold_append_field [where sel = starved_tables, OF loop_body_starved])
     (simp add: init_state_def)

lemma scan_high_change:
  "high_change_low_priority (scan med qnt df) =
     map (\<lambda>i. (ID (df ! i), ChangeRatio (df ! i), CalculatedPriority (df ! i)))
       (filter (\<lambda>i. gt_stat (ChangeRatio (df ! i)) (qnt CHANGE_RATIO_QUANTILE (map ChangeRatio df)) \<and>
                     lt_stat (CalculatedPriority (df ! i)) (med (map CalculatedPriority df)))
          [0..<length df - 1])"
  unfolding scan_def py_range_len
  by (subst fold_append_field [where sel = high_change_low_priority, OF loop_body_high_change])
     (simp add: init_state_def)

lemma res_simps:
  "res_issues (detect_priority_issues_with med qnt df) = summarize (scan med qnt df)"
  "res_large_blocking_small (detect_priority_issues_with med qnt df) = large_blocking_small (scan med qnt df)"
  "res_small_blocking_large (detect_priority_issues_with med qnt df) = small_blocking_large (scan med qnt df)"
  "res_starved_tables (detect_priority_issues_with med qnt df) = starved_tables (scan med qnt df)"
  "res_high_change_low_priority (detect_priority_issues_with med qnt df) = high_change_low_priority (scan med qnt df)"
  by (simp_all add: detect_priority_issues_with_def result_of_def res_issues_def
      res_large_blocking_small_def res_small_blocking_large_def res_starved_tables_def
      res_high_change_low_priority_def)

lemma summarize_init: "summarize init_state = []"
  by (simp add: summarize_def init_state_def LARGE_BLOCKING_SMALL_THRESHOLD_def
      SMALL_BLOCKING_LARGE_THRESHOLD_def STARVED_TABLES_THRESHOLD_def
      HIGH_CHANGE_LOW_PRIORITY_THRESHOLD_def)

subsection \<open>C1: the large-blocking-small evidence\<close>

text \<open>
  Claim C1. For every data frame, the \<open>large_blocking_small\<close> list holds, in the order of
  the positions \<open>i = 0, ..., N - 2\<close>, one tuple
  \<open>(current.ID, next.ID, current.TableSize, next.TableSize)\<close> for exactly those adjacent
  pairs \<open>(i, i + 1)\<close> with \<open>current.TableSize > next.TableSize * 2\<close> and
  \<open>current.CalculatedPriority - next.CalculatedPriority > 0.05\<close>, the difference being the
  float64 subtraction and \<open>0.05\<close> the float64 constant, as the program computes them.
\<close>

theorem large_blocking_small_characterised:
  "res_large_blocking_small (detect_priority_issues df) =
     map (\<lambda>i. (ID (df ! i), ID (df ! (i + 1)), TableSize (df ! i), TableSize (df ! (i + 1))))
       (filter (\<lambda>i. TableSize (df ! i) > TableSize (df ! (i + 1)) * 2 \<and>
                     float64 (float64 (CalculatedPriority (df ! i)) -
                              float64 (CalculatedPriority (df ! (i + 1)))) > float64 (5 / 100))
          [0..<length df - 1])"
  by (simp add: detect_priority_issues_def res_simps scan_large large_blocks_small_def
      float_sub_def TABLE_SIZE_RATIO_THRESHOLD_def PRIORITY_DIFFERENCE_THRESHOLD_def)

text \<open>
  The characterisation run on three frames. In the specification's example the pair
  \<open>(1, 2)\<close> is recorded and the pair \<open>(2, 3)\<close> is not. With the priorities \<open>0.9\<close> and
  \<open>0.85\<close> the pair is recorded: the float64 difference is \<open>0.050000000000000044\<close>, above
  the float64 \<open>0.05\<close>. With the priorities \<open>0.05\<close> and \<open>0.0\<close> the pair is not recorded: the
  difference is the threshold itself.
\<close>

theorem large_blocking_small_characterised_witness:
  "res_large_blocking_small (detect_priority_issues spec_example) = [(1, 2, 1000, 10)] \<and>
   res_large_blocking_small (detect_priority_issues gap_above_threshold) = [(1, 2, 1000, 10)] \<and>
   res_large_blocking_small (detect_priority_issues gap_at_threshold) = []"
proof -
  have d1: "float64 (float64 (9 / 10) - float64 (1 / 2)) = 3602879701896397 / 9007199254740992"
    using float_sub_0_9_0_5 by (simp only: float_sub_def)
  have d2: "float64 (float64 (9 / 10) - float64 (17 / 20)) = 225179981368525 / 4503599627370496"
    using float_sub_0_9_0_85 by (simp only: float_sub_def)
  have d3: "float64 (3602879701896397 / 72057594037927936 - float64 0) =
      3602879701896397 / 72057594037927936"
    using float_sub_0_05_0 by (simp only: float_sub_def float64_0_05)
  have a: "res_large_blocking_small (detect_priority_issues spec_example) = [(1, 2, 1000, 10)]"
    unfolding large_blocking_small_characterised
    by (simp add: spec_example_def upt_numeral_simps d1 float64_0_05)
  have b: "res_large_blocking_small (detect_priority_issues gap_above_threshold) = [(1, 2, 1000, 10)]"
    unfolding large_blocking_small_characterised
    by (simp add: gap_above_threshold_def upt_numeral_simps d2 float64_0_05)
  have c: "res_large_blocking_small (detect_priority_issues gap_at_threshold) = []"
    unfolding large_blocking_small_characterised
    by (simp add: gap_at_threshold_def upt_numeral_simps d3 float64_0_05)
  from a b c show ?thesis by (intro conjI)
qed

subsection \<open>C2: the last record\<close>

text \<open>
  Claim C2 says that the last record takes part in the two per-record rules. The loop
  runs over the positions \<open>0, ..., N - 2\<close> only, and the two rules test \<open>current\<close> inside
  it, so the last record is never tested. In \<open>last_row_example\<close> the last record satisfies
  the starvation condition and the high-change condition against the statistics of the
  frame (median \<open>0.5\<close>, quantile \<open>0.625\<close>), and both lists come back empty.
\<close>

theorem last_row_never_scanned_example:
  "TimeSinceLastAnalyze (last last_row_example) > STARVATION_THRESHOLD_DAYS * SECONDS_PER_DAY \<and>
   lt_stat (CalculatedPriority (last last_row_example))
     (median (map CalculatedPriority last_row_example)) \<and>
   gt_stat (ChangeRatio (last last_row_example))
     (quantile CHANGE_RATIO_QUANTILE (map ChangeRatio last_row_example)) \<and>
   res_starved_tables (detect_priority_issues last_row_example) = [] \<and>
   res_high_change_low_priority (detect_priority_issues last_row_example) = []"
proof -
  have m: "median (map CalculatedPriority last_row_example) = Some (1 / 2)"
    by (simp add: last_row_example_def median_def)
  have q: "quantile CHANGE_RATIO_QUANTILE (map ChangeRatio last_row_example) = Some (5 / 8)"
    by (simp add: last_row_example_def quantile_def CHANGE_RATIO_QUANTILE_value)
  have a: "TimeSinceLastAnalyze (last last_row_example) > STARVATION_THRESHOLD_DAYS * SECONDS_PER_DAY"
    by (simp add: last_row_example_def thresholds)
  have b: "lt_stat (CalculatedPriority (last last_row_example))
     (median (map CalculatedPriority last_row_example))"
    unfolding m by (simp add: last_row_example_def lt_stat_def)
  have c: "gt_stat (ChangeRatio (last last_row_example))
     (quantile CHANGE_RATIO_QUANTILE (map ChangeRatio last_row_example))"
    unfolding q by (simp add: last_row_example_def gt_stat_def)
  have s: "res_starved_tables (detect_priority_issues last_row_example) = []"
    unfolding detect_priority_issues_def res_simps scan_starved m
    by (simp add: last_row_example_def upt_numeral_simps lt_stat_def
        STARVATION_THRESHOLD_DAYS_def SECONDS_PER_DAY_def)
  have h: "res_high_change_low_priority (detect_priority_issues last_row_example) = []"
    unfolding detect_priority_issues_def res_simps scan_high_change m q
    by (simp add: last_row_example_def upt_numeral_simps lt_stat_def gt_stat_def)
  from a b c s h show ?thesis by (intro conjI)
qed

subsection \<open>C3: the two-phase variant\<close>

text \<open>
  Claim C3. For every data frame, the two-phase variant, which computes the priority
  median and the 0.75 quantile of the change ratio once before the scan, returns exactly
  the tuple the detector returns, which computes both inside every iteration.
\<close>

lemma scan_body_two_phase_eq:
  "scan_body_two_phase (med (map CalculatedPriority df)) (qnt CHANGE_RATIO_QUANTILE (map ChangeRatio df)) df =
   loop_body med qnt df"
  by (rule ext, rule ext) (simp add: scan_body_two_phase_def loop_body_def)

theorem two_phase_equivalent:
  "detect_priority_issues_two_phase df = detect_priority_issues df"
  by (simp add: detect_priority_issues_two_phase_def detect_priority_issues_def
      detect_priority_issues_with_def scan_def scan_body_two_phase_eq)

subsection \<open>C4: the summary\<close>

lemmas issue_thresholds = LARGE_BLOCKING_SMALL_THRESHOLD_def SMALL_BLOCKING_LARGE_THRESHOLD_def
  STARVED_TABLES_THRESHOLD_def HIGH_CHANGE_LOW_PRIORITY_THRESHOLD_def

lemma summarize_eq:
  "summarize st =
     (if length (large_blocking_small st) > 10
      then [msg_large_blocking_small (length (large_blocking_small st))] else []) @
     (if length (small_blocking_large st) > 10
      then [msg_small_blocking_large (length (small_blocking_large st))] else []) @
     (if length (starved_tables st) > 5
      then [msg_starved_tables (length (starved_tables st))] else []) @
     (if length (high_change_low_priority st) > 5
      then [msg_high_change_low_priority (length (high_change_low_priority st))] else [])"
  by (simp add: summarize_def issue_thresholds)

lemma last_msgs:
  "last (msg_large_blocking_small n) = CHR ''s''"
  "last (msg_small_blocking_large n) = CHR ''s''"
  "last (msg_starved_tables n) = CHR ''n''"
  "last (msg_high_change_low_priority n) = CHR ''y''"
  by (simp_all add: msg_large_blocking_small_def msg_small_blocking_large_def
      msg_starved_tables_def msg_high_change_low_priority_def)

lemma msg_large_neq_small: "msg_large_blocking_small n \<noteq> msg_small_blocking_large m"
proof
  assume "msg_large_blocking_small n = msg_small_blocking_large m"
  then have "str_nat n @ '' instances where larger tables may be blocking smaller tables'' =
             str_nat m @ '' instances where smaller tables may be blocking larger tables''"
    by (simp add: msg_large_blocking_small_def msg_small_blocking_large_def)
  then have "'' instances where larger tables may be blocking smaller tables'' =
             '' instances where smaller tables may be blocking larger tables''"
    by (subst (asm) append_eq_append_conv) simp_all
  then show False by simp
qed

lemma msgs_distinct:
  "msg_large_blocking_small n \<noteq> msg_small_blocking_large m"
  "msg_large_blocking_small n \<noteq> msg_starved_tables m"
  "msg_large_blocking_small n \<noteq> msg_high_change_low_priority m"
  "msg_small_blocking_large n \<noteq> msg_large_blocking_small m"
  "msg_small_blocking_large n \<noteq> msg_starved_tables m"
  "msg_small_blocking_large n \<noteq> msg_high_change_low_priority m"
  "msg_starved_tables n \<noteq> msg_large_blocking_small m"
  "msg_starved_tables n \<noteq> msg_small_blocking_large m"
  "msg_starved_tables n \<noteq> msg_high_change_low_priority m"
  "msg_high_change_low_priority n \<noteq> msg_large_blocking_small m"
  "msg_high_change_low_priority n \<noteq> msg_small_blocking_large m"
  "msg_high_change_low_priority n \<noteq> msg_starved_tables m"
  using msg_large_neq_small [of n m] msg_large_neq_small [of m n]
    last_msgs [of n] last_msgs [of m]
  by (auto dest: arg_cong [where f = last])

lemma str_nat_11: "str_nat 11 = ''11''"
  by code_simp

lemma steep_rows_large:
  assumes "n < 2 ^ 53"
  shows "res_large_blocking_small (detect_priority_issues (steep_rows n)) =
     map (\<lambda>i. (i, i + 1, 3 ^ (n - i), 3 ^ (n - (i + 1)))) [0..<n - 1]"
proof -
  have c: "large_blocks_small (steep_rows n ! i) (steep_rows n ! (i + 1))" if "i < n - 1" for i
  proof -
    from that have lt: "i < n" "Suc i < n" by linarith+
    from that have suc: "n - i = Suc (n - Suc i)" by linarith
    then have size: "(3::real) ^ (n - Suc i) * 2 < 3 ^ (n - i)" by simp
    from assms have "n - i < 2 ^ 53" by linarith
    moreover have "n - Suc i \<le> n - i" by linarith
    ultimately have "float_sub (real (n - i)) (real (n - Suc i)) = real (n - i - (n - Suc i))"
      by (rule float_sub_of_nat)
    also from suc have "n - i - (n - Suc i) = 1" by linarith
    finally have prio: "float_sub (real (n - i)) (real (n - Suc i)) = 1" by simp
    from lt size show ?thesis
      by (simp add: steep_rows_def large_blocks_small_def TABLE_SIZE_RATIO_THRESHOLD_def
          PRIORITY_DIFFERENCE_THRESHOLD_value prio del: of_nat_Suc of_nat_diff)
  qed
  then have "filter (\<lambda>i. large_blocks_small (steep_rows n ! i) (steep_rows n ! (i + 1))) [0..<n - 1]
             = [0..<n - 1]"
    by (simp add: filter_id_conv)
  moreover have "length (steep_rows n) = n" by (simp add: steep_rows_def)
  ultimately show ?thesis
    by (simp add: detect_priority_issues_def res_simps scan_large steep_rows_def)
qed

text \<open>
  Claim C4. For every data frame, the issues list is the concatenation, in the order
  large-blocking-small, small-blocking-large, starved, high-change-low-priority, of one
  line per category whose evidence list is strictly longer than its threshold (10, 10, 5
  and 5), the line stating the length; so the lines of a category in the issues list
  are that one line when the threshold is exceeded and none otherwise. With exactly 10
  large-blocking-small entries there is no line of that category, and with 11 there is
  exactly one, which states the count 11.
\<close>

theorem issues_exactly_above_threshold:
  "res_issues (detect_priority_issues df) =
     (if length (res_large_blocking_small (detect_priority_issues df)) > 10
      then [msg_large_blocking_small (length (res_large_blocking_small (detect_priority_issues df)))]
      else []) @
     (if length (res_small_blocking_large (detect_priority_issues df)) > 10
      then [msg_small_blocking_large (length (res_small_blocking_large (detect_priority_issues df)))]
      else []) @
     (if length (res_starved_tables (detect_priority_issues df)) > 5
      then [msg_starved_tables (length (res_starved_tables (detect_priority_issues df)))]
      else []) @
     (if length (res_high_change_low_priority (detect_priority_issues df)) > 5
      then [msg_high_change_low_priority (length (res_high_change_low_priority (detect_priority_issues df)))]
      else []) \<and>
   filter (\<lambda>s. \<exists>n. s = msg_large_blocking_small n) (res_issues (detect_priority_issues df)) =
     (if length (res_large_blocking_small (detect_priority_issues df)) > 10
      then [msg_large_blocking_small (length (res_large_blocking_small (detect_priority_issues df)))]
      else []) \<and>
   filter (\<lambda>s. \<exists>n. s = msg_small_blocking_large n) (res_issues (detect_priority_issues df)) =
     (if length (res_small_blocking_large (detect_priority_issues df)) > 10
      then [msg_small_blocking_large (length (res_small_blocking_large (detect_priority_issues df)))]
      else []) \<and>
   filter (\<lambda>s. \<exists>n. s = msg_starved_tables n) (res_issues (detect_priority_issues df)) =
     (if length (res_starved_tables (detect_priority_issues df)) > 5
      then [msg_starved_tables (length (res_starved_tables (detect_priority_issues df)))]
      else []) \<and>
   filter (\<lambda>s. \<exists>n. s = msg_high_change_low_priority n) (res_issues (detect_priority_issues df)) =
     (if length (res_high_change_low_priority (detect_priority_issues df)) > 5
      then [msg_high_change_low_priority (length (res_high_change_low_priority (detect_priority_issues df)))]
      else []) \<and>
   (length (res_large_blocking_small (detect_priority_issues df)) = 10 \<longrightarrow>
      filter (\<lambda>s. \<exists>n. s = msg_large_blocking_small n) (res_issues (detect_priority_issues df)) = []) \<and>
   (length (res_large_blocking_small (detect_priority_issues df)) = 11 \<longrightarrow>
      filter (\<lambda>s. \<exists>n. s = msg_large_blocking_small n) (res_issues (detect_priority_issues df)) =
        [''Found 11 instances where larger tables may be blocking smaller tables''])"
proof -
  let ?r = "detect_priority_issues df"
  have full: "res_issues ?r =
     (if length (res_large_blocking_small ?r) > 10
      then [msg_large_blocking_small (length (res_large_blocking_small ?r))] else []) @
     (if length (res_small_blocking_large ?r) > 10
      then [msg_small_blocking_large (length (res_small_blocking_large ?r))] else []) @
     (if length (res_starved_tables ?r) > 5
      then [msg_starved_tables (length (res_starved_tables ?r))] else []) @
     (if length (res_high_change_low_priority ?r) > 5
      then [msg_high_change_low_priority (length (res_high_change_low_priority ?r))] else [])"
    by (simp only: detect_priority_issues_def res_simps summarize_eq)
  have f1: "filter (\<lambda>s. \<exists>n. s = msg_large_blocking_small n) (res_issues ?r) =
     (if length (res_large_blocking_small ?r) > 10
      then [msg_large_blocking_small (length (res_large_blocking_small ?r))] else [])"
    unfolding full by (auto simp: msgs_distinct)
  have f2: "filter (\<lambda>s. \<exists>n. s = msg_small_blocking_large n) (res_issues ?r) =
     (if length (res_small_blocking_large ?r) > 10
      then [msg_small_blocking_large (length (res_small_blocking_large ?r))] else [])"
    unfolding full by (auto simp: msgs_distinct)
  have f3: "filter (\<lambda>s. \<exists>n. s = msg_starved_tables n) (res_issues ?r) =
     (if length (res_starved_tables ?r) > 5
      then [msg_starved_tables (length (res_starved_tables ?r))] else [])"
    unfolding full by (auto simp: msgs_distinct)
  have f4: "filter (\<lambda>s. \<exists>n. s = msg_high_change_low_priority n) (res_issues ?r) =
     (if length (res_high_change_low_priority ?r) > 5
      then [msg_high_change_low_priority (length (res_high_change_low_priority ?r))] else [])"
    unfolding full by (auto simp: msgs_distinct)
  have m11: "msg_large_blocking_small 11 =
      ''Found 11 instances where larger tables may be blocking smaller tables''"
    by (simp add: msg_large_blocking_small_def str_nat_11)
  have ten: "length (res_large_blocking_small ?r) = 10 \<longrightarrow>
      filter (\<lambda>s. \<exists>n. s = msg_large_blocking_small n) (res_issues ?r) = []"
    unfolding f1 by simp
  have eleven: "length (res_large_blocking_small ?r) = 11 \<longrightarrow>
      filter (\<lambda>s. \<exists>n. s = msg_large_blocking_small n) (res_issues ?r) =
        [''Found 11 instances where larger tables may be blocking smaller tables'']"
    unfolding f1 using m11 by simp
  from full f1 f2 f3 f4 ten eleven show ?thesis by blast
qed

theorem issues_exactly_above_threshold_witness:
  "length (res_large_blocking_small (detect_priority_issues (steep_rows 11))) = 10 \<and>
   filter (\<lambda>s. \<exists>n. s = msg_large_blocking_small n)
     (res_issues (detect_priority_issues (steep_rows 11))) = [] \<and>
   length (res_large_blocking_small (detect_priority_issues (steep_rows 12))) = 11 \<and>
   filter (\<lambda>s. \<exists>n. s = msg_large_blocking_small n)
     (res_issues (detect_priority_issues (steep_rows 12))) =
     [''Found 11 instances where larger tables may be blocking smaller tables'']"
proof -
  have l10: "length (res_large_blocking_small (detect_priority_issues (steep_rows 11))) = 10"
    by (simp add: steep_rows_large)
  have l11: "length (res_large_blocking_small (detect_priority_issues (steep_rows 12))) = 11"
    by (simp add: steep_rows_large)
  from issues_exactly_above_threshold [of "steep_rows 11"] l10
  have a: "filter (\<lambda>s. \<exists>n. s = msg_large_blocking_small n)
     (res_issues (detect_priority_issues (steep_rows 11))) = []"
    by blast
  from issues_exactly_above_threshold [of "steep_rows 12"] l11
  have b: "filter (\<lambda>s. \<exists>n. s = msg_large_blocking_small n)
     (res_issues (detect_priority_issues (steep_rows 12))) =
     [''Found 11 instances where larger tables may be blocking smaller tables'']"
    by blast
  from l10 a l11 b show ?thesis by blast
qed

subsection \<open>C5: the empty data frame\<close>

text \<open>
  Claim C5. For the empty data frame the detector returns an empty issues list and four
  empty evidence lists. The result is the same whatever the median and the quantile
  functions are, since the loop body, the only place that calls them, never runs.
\<close>

theorem empty_dataset_empty_result:
  "detect_priority_issues ([] :: 'id dataframe) = ([], [], [], [], []) \<and>
   (\<forall>med qnt. detect_priority_issues_with med qnt ([] :: 'id dataframe) = ([], [], [], [], []))"
  by (simp add: detect_priority_issues_def detect_priority_issues_with_def scan_def py_range_def
      result_of_def summarize_init) (simp add: init_state_def)

subsection \<open>C6: the two size rules exclude each other\<close>

text \<open>
  Claim C6. For every adjacent pair with non-negative table sizes, the conditions
  "large blocks small" and "small blocks large" do not both hold, so one iteration adds
  at most one entry to the two size lists together, whatever the statistics say about
  starvation and high change for the same current record.
\<close>

theorem size_rules_mutually_exclusive:
  assumes "0 \<le> TableSize (df ! i)" and "0 \<le> TableSize (df ! (i + 1))"
  shows "\<not> (large_blocks_small (df ! i) (df ! (i + 1)) \<and> small_blocks_large (df ! i) (df ! (i + 1))) \<and>
     length (large_blocking_small (loop_body med qnt df i st)) +
     length (small_blocking_large (loop_body med qnt df i st)) \<le>
     length (large_blocking_small st) + length (small_blocking_large st) + 1"
  using assms
  by (auto simp: loop_body_large loop_body_small large_blocks_small_def small_blocks_large_def
      TABLE_SIZE_RATIO_THRESHOLD_def)

theorem size_rules_mutually_exclusive_witness:
  "0 \<le> TableSize (spec_example ! 0) \<and> 0 \<le> TableSize (spec_example ! (0 + 1)) \<and>
   large_blocks_small (spec_example ! 0) (spec_example ! (0 + 1)) \<and>
   \<not> small_blocks_large (spec_example ! 0) (spec_example ! (0 + 1))"
proof -
  have h1: "0 \<le> TableSize (spec_example ! 0)" by (simp add: spec_example_def)
  have h2: "0 \<le> TableSize (spec_example ! (0 + 1))" by (simp add: spec_example_def)
  have l: "large_blocks_small (spec_example ! 0) (spec_example ! (0 + 1))"
    by (simp add: spec_example_def large_blocks_small_def thresholds float_sub_0_9_0_5)
  from size_rules_mutually_exclusive [OF h1 h2] l
  have "\<not> small_blocks_large (spec_example ! 0) (spec_example ! (0 + 1))" by blast
  with h1 h2 l show ?thesis by blast
qed

subsection \<open>C7: the size boundary\<close>

text \<open>
  Claim C7. For every adjacent pair of the data model, where a table size is not negative,
  with \<open>current.TableSize = next.TableSize * 2\<close> exactly, neither the "large blocks small"
  rule nor the "small blocks large" rule fires, whatever the priorities are, and the
  iteration leaves both size lists as they were.
\<close>

theorem boundary_fires_neither_rule:
  assumes "TableSize (df ! i) = TableSize (df ! (i + 1)) * 2" and "0 \<le> TableSize (df ! i)"
  shows "\<not> large_blocks_small (df ! i) (df ! (i + 1)) \<and>
     \<not> small_blocks_large (df ! i) (df ! (i + 1)) \<and>
     large_blocking_small (loop_body med qnt df i st) = large_blocking_small st \<and>
     small_blocking_large (loop_body med qnt df i st) = small_blocking_large st"
  using assms
  by (auto simp: loop_body_large loop_body_small large_blocks_small_def small_blocks_large_def
      TABLE_SIZE_RATIO_THRESHOLD_def)

theorem boundary_fires_neither_rule_witness:
  "TableSize (boundary_pair ! 0) = TableSize (boundary_pair ! (0 + 1)) * 2 \<and>
   0 \<le> TableSize (boundary_pair ! 0) \<and>
   \<not> large_blocks_small (boundary_pair ! 0) (boundary_pair ! (0 + 1)) \<and>
   \<not> small_blocks_large (boundary_pair ! 0) (boundary_pair ! (0 + 1)) \<and>
   res_large_blocking_small (detect_priority_issues boundary_pair) = [] \<and>
   res_small_blocking_large (detect_priority_issues boundary_pair) = []"
proof -
  have h1: "TableSize (boundary_pair ! 0) = TableSize (boundary_pair ! (0 + 1)) * 2"
    by (simp add: boundary_pair_def)
  have h2: "0 \<le> TableSize (boundary_pair ! 0)" by (simp add: boundary_pair_def)
  from boundary_fires_neither_rule [OF h1 h2]
  have n: "\<not> large_blocks_small (boundary_pair ! 0) (boundary_pair ! (0 + 1))"
    "\<not> small_blocks_large (boundary_pair ! 0) (boundary_pair ! (0 + 1))"
    by blast+
  have len: "length boundary_pair - Suc 0 = Suc 0" by (simp add: boundary_pair_def)
  from n have l: "res_large_blocking_small (detect_priority_issues boundary_pair) = []"
    by (simp add: detect_priority_issues_def res_simps scan_large len upt_numeral_simps)
  from n have s: "res_small_blocking_large (detect_priority_issues boundary_pair) = []"
    by (simp add: detect_priority_issues_def res_simps scan_small len upt_numeral_simps)
  from h1 h2 n l s show ?thesis by (intro conjI)
qed

subsection \<open>C8: appending records\<close>













subsection \<open>C10: a single record\<close>

text \<open>
  Claim C10. For every data frame of exactly one record the detector returns an empty
  issues list and four empty evidence lists, whatever the record holds: the loop runs
  over the positions \<open>0, ..., N - 2\<close>, so it runs zero times.
\<close>

theorem single_record_empty_result:
  "detect_priority_issues [r] = ([], [], [], [], [])"
  by (simp add: detect_priority_issues_def detect_priority_issues_with_def scan_def py_range_def
      result_of_def summarize_init) (simp add: init_state_def)

end
